theory Spec2Isabelle
  imports Main
begin

section \<open>Values, options objects and errors\<close>

text \<open>
  JavaScript primitives that reach the modelled code as option values, preference
  values and widths. \<open>JNum n\<close> is the Number \<open>n\<close>, for an integer \<open>n\<close> between
  \<open>-(2^53 - 1)\<close> and \<open>2^53 - 1\<close>, where every integer is a double and sums that stay in
  the range are exact. \<open>JUnknown\<close> is a Number or a String that the model does not
  determine: every other Number (a fraction, a larger magnitude, an infinity, NaN)
  and whatever is computed from one.
\<close>

datatype js_val = JUndefined | JNull | JBool bool | JNum int | JStr string | JUnknown

text \<open>An options object is a property map; \<open>{}\<close> is the empty map.\<close>

type_synonym js_obj = "string \<rightharpoonup> js_val"

text \<open>
  A zero-argument option provider \<open>() => Options\<close>. \<open>None\<close> is a provider that
  returns nothing (\<open>undefined\<close> or \<open>null\<close>).
\<close>

type_synonym provider = "unit \<Rightarrow> js_obj option"

text \<open>
  Every \<open>assert\<close> of the sources, every \<open>TypeError\<close> the modelled paths can raise, and
  the \<open>RangeError\<close> of a call stack that is exhausted. The strings are the names the
  messages interpolate.
\<close>

datatype error =
    UnregisteredPlugin string
  | NoMetaSpecified string
  | NoColumnMeta string
  | NoRowMeta string
  | NoTableMeta string
  | PluginAlreadyExists string
  | FeatureNotFound string string
  | CannotUseStringKey
  | CannotUseObjectKey
  | NoOwner
  | InvalidSticky js_val
  | UnsatisfiedRequirement string string
  | TypeError
  | RangeError

section \<open>Columns, rows and meta objects\<close>

text \<open>
  A column is an object: \<open>column_ref\<close> is its identity. \<open>column_table\<close> is the address
  of the owning table in the store of tables. \<open>pluginOptions\<close> pairs the identity of a
  plugin class with an optional provider (\<open>option[0] === klass\<close>, \<open>t?.[1]\<close>).
\<close>

record column =
  column_ref :: nat
  column_key :: string
  column_table :: nat
  pluginOptions :: "(nat \<times> provider option) list option"

record row =
  row_ref :: nat
  row_table :: nat

datatype entity = ETable nat | EColumn column | ERow row

text \<open>
  The members of a meta object that the sticky-columns plugin reads through features.
  \<open>mp_width\<close> is \<open>None\<close> when the object has no property \<open>width\<close>, and the value of
  the property otherwise; the resolved meta has the type \<open>unknown\<close>, so the value can
  be any primitive. The metas that provide the members (column resizing, column
  visibility) are parameters.
\<close>

record meta_props =
  mp_width :: "js_val option"
  mp_columnsBefore :: "(column \<Rightarrow> column list) option"
  mp_columnsAfter :: "(column \<Rightarrow> column list) option"

text \<open>
  A call of a metadata accessor, \<open>meta.forTable(table, klass)\<close>, \<open>meta.forColumn(column,
  klass)\<close> or \<open>meta.forRow(row, klass)\<close>, with the class given by its identity and its
  name.
\<close>

datatype lookup =
    LookupTable nat nat string
  | LookupColumn column nat string
  | LookupRow row nat string

text \<open>
  A meta class. \<open>new M(entity)\<close> runs the constructor, which is plugin code: \<open>mc_body\<close>
  lists the accessor calls it makes, which can depend on how often the constructor
  has been entered before (state a plugin can keep) and on the entity. The object it
  yields has the members \<open>mc_props M entity\<close>.
\<close>

record meta_class =
  mc_id :: nat
  mc_props :: "entity \<Rightarrow> meta_props"
  mc_body :: "nat \<Rightarrow> entity \<Rightarrow> lookup list"

record meta_inst =
  meta_ref :: nat
  meta_of_class :: nat
  meta_entity :: entity
  meta_members :: meta_props

section \<open>Plugin classes and plugin instances\<close>

record meta_factories =
  meta_column :: "meta_class option"
  meta_table :: "meta_class option"
  meta_row :: "meta_class option"

text \<open>
  A plugin class: its identity, \<open>klass.name\<close>, the identities of the classes on its
  prototype chain (for \<open>instanceof\<close>), its static \<open>features\<close> and \<open>requires\<close>, and the
  fields its constructor initialises on an instance.
\<close>

record plugin_class =
  class_id :: nat
  class_name :: string
  class_supers :: "nat list"
  static_features :: "string list option"
  static_requires :: "string list option"
  inst_name :: string
  inst_features :: "string list option"
  inst_meta :: "meta_factories option"

record plugin =
  plugin_ref :: nat
  plugin_constructor :: plugin_class
  plugin_name :: string
  plugin_features :: "string list option"
  plugin_meta :: "meta_factories option"
  plugin_table :: "nat option"
  plugin_owner :: "nat option"

text \<open>The first element of a configuration tuple: a class, or a plugin object.\<close>

datatype plugin_spec = PluginClass plugin_class | PluginObject plugin

text \<open>The two forms of a configured plugin: a plain reference, or \<open>[reference, provider]\<close>.\<close>

datatype plugin_entry = Bare plugin_spec | WithOptions plugin_spec provider

section \<open>Preferences\<close>

datatype pref_scope = TableScope | ColumnScope string

type_synonym prefs_data = "string \<Rightarrow> pref_scope \<Rightarrow> (string \<rightharpoonup> js_val)"

record prefs_adapter =
  adapter_id :: nat
  adapter_restore :: prefs_data

text \<open>
  Modelled from the spec: the class \<open>TablePreferences\<close> (\<open>-private/preferences\<close>) is not
  among the sources. The spec describes the store as "a nested key-value structure
  addressed by (plugin name) -> (column key | "table") -> (preference key) -> value,
  with an explicit persist() operation that flushes to the backing adapter", and the
  adapter as "something capable of loading and saving the nested preference
  structure". \<open>persisted\<close> lists what each \<open>persist()\<close> call flushed, oldest first.
\<close>

record table_preferences =
  prefs_key :: string
  prefs_adapter_of :: "prefs_adapter option"
  storage :: prefs_data
  persisted :: "prefs_data list"

text \<open>
  Modelled from the spec: the constructor of \<open>TablePreferences\<close>. The store starts with
  what the adapter loads, or empty without an adapter; nothing has been flushed.
\<close>

definition new_TablePreferences :: "string \<Rightarrow> prefs_adapter option \<Rightarrow> table_preferences" where
  "new_TablePreferences key adapter =
     \<lparr>prefs_key = key, prefs_adapter_of = adapter,
      storage = (case adapter of None \<Rightarrow> (\<lambda>_ _. Map.empty) | Some a \<Rightarrow> adapter_restore a),
      persisted = []\<rparr>"

text \<open>
  Modelled from the spec: \<open>persist()\<close>, "an explicit persist() operation that flushes to
  the backing adapter". The flushed store is appended to \<open>persisted\<close>.
\<close>

definition persist :: "table_preferences \<Rightarrow> table_preferences" where
  "persist prefs = prefs\<lparr>persisted := persisted prefs @ [storage prefs]\<rparr>"

text \<open>
  Modelled from the spec: \<open>storage.forPlugin(name).forColumn(key).get(k)\<close> and
  \<open>storage.forPlugin(name).table.get(k)\<close>, a lookup along the path (plugin name) ->
  (column key | "table") -> (preference key). A key with no entry yields \<open>undefined\<close>.
\<close>

definition storage_get :: "table_preferences \<Rightarrow> string \<Rightarrow> pref_scope \<Rightarrow> string \<Rightarrow> js_val" where
  "storage_get prefs pluginName scope key =
     (case storage prefs pluginName scope key of None \<Rightarrow> JUndefined | Some v \<Rightarrow> v)"

text \<open>Modelled from the spec: \<open>set(k, v)\<close> on the map at the end of the same path.\<close>

definition storage_set ::
  "table_preferences \<Rightarrow> string \<Rightarrow> pref_scope \<Rightarrow> string \<Rightarrow> js_val \<Rightarrow> table_preferences" where
  "storage_set prefs pluginName scope key v =
     prefs\<lparr>storage := (storage prefs)
       (pluginName := (storage prefs pluginName)
          (scope := (storage prefs pluginName scope)(key \<mapsto> v)))\<rparr>"

text \<open>Modelled from the spec: \<open>delete(k)\<close> on the map at the end of the same path.\<close>

definition storage_delete ::
  "table_preferences \<Rightarrow> string \<Rightarrow> pref_scope \<Rightarrow> string \<Rightarrow> table_preferences" where
  "storage_delete prefs pluginName scope key =
     prefs\<lparr>storage := (storage prefs)
       (pluginName := (storage prefs pluginName)
          (scope := (storage prefs pluginName scope)(key := None)))\<rparr>"

section \<open>The table and the world\<close>

record prefs_config =
  config_key :: "string option"
  config_adapter :: "prefs_adapter option"

record table_config =
  config_plugins :: "plugin_entry list option"
  config_preferences :: "prefs_config option"

text \<open>
  The table object. \<open>args\<close> is \<open>this.args.named\<close>, \<open>None\<close> before the first \<open>modify\<close>.
  \<open>plugins_cache\<close> is the memo of the \<open>@cached\<close> getter \<open>plugins\<close>: \<open>None\<close> when the
  getter has to run. \<open>scrollTop\<close> is \<open>scrollContainerElement.scrollTop\<close>, \<open>None\<close> when
  no element is attached.
\<close>

record table =
  TABLE_KEY :: string
  args :: "table_config option"
  plugins_cache :: "plugin list option"
  preferences :: "table_preferences option"
  table_owner :: "nat option"
  scrollTop :: "int option"

datatype meta_map = TABLE_META | COLUMN_META | ROW_META

datatype root_key = StringKey string | ObjectKey nat

text \<open>The slot of a cache: which map, which root key, which plugin class.\<close>

type_synonym slot = "meta_map \<times> root_key \<times> nat"

text \<open>
  The state the code runs in: the three module-level maps of \<open>base.ts\<close> (a bucket maps
  the identity of a plugin class to a meta object), the store of table objects, the
  next unused object identity, how many nested constructor calls the call stack has
  room for, and how often the constructor of each meta class has been entered.
  Three histories are kept to count events: the slots meta constructors were called
  for (\<open>new plugin.meta.table(table)\<close> and its siblings), the slots in which
  \<open>bucket.set\<close> replaced an object, and the number of accessor calls made from inside
  constructors.
\<close>

record world =
  meta_maps :: "meta_map \<Rightarrow> root_key \<rightharpoonup> (nat \<rightharpoonup> meta_inst)"
  tables :: "nat \<Rightarrow> table"
  heap_next :: nat
  stack_limit :: nat
  ctor_runs :: "nat \<Rightarrow> nat"
  constructed :: "slot list"
  replaced :: "slot list"
  nested :: nat

text \<open>
  A computation that reads and writes the world and may throw. A thrown error does not
  undo the writes made before it.
\<close>

type_synonym 'a eff = "world \<Rightarrow> (error + 'a) \<times> world"

definition returnE :: "'a \<Rightarrow> 'a eff" where
  "returnE x w = (Inr x, w)"

definition throwE :: "error \<Rightarrow> 'a eff" where
  "throwE e w = (Inl e, w)"

definition bindE :: "'a eff \<Rightarrow> ('a \<Rightarrow> 'b eff) \<Rightarrow> 'b eff" where
  "bindE m f w = (case m w of (Inl e, w') \<Rightarrow> (Inl e, w') | (Inr x, w') \<Rightarrow> f x w')"

definition assertE :: "error \<Rightarrow> bool \<Rightarrow> unit eff" where
  "assertE e cond = (if cond then returnE () else throwE e)"

section \<open>The plugin registry\<close>

text \<open>
  Modelled from the spec: \<open>normalizePluginsConfig\<close> (\<open>plugins/-private/utils\<close>) is not
  among the sources. The spec calls its result "an ordered list of
  (plugin-class-or-instance, option-provider) pairs", made from "a plain class
  reference, or a (class, zero-arg options-provider) pair". A plain reference gets a
  provider of the empty options object.
\<close>

fun normalize_entry :: "plugin_entry \<Rightarrow> plugin_spec \<times> provider" where
  "normalize_entry (Bare c) = (c, \<lambda>_. Some Map.empty)"
| "normalize_entry (WithOptions c fn) = (c, fn)"

text \<open>
  Modelled from the spec: \<open>normalizePluginsConfig\<close> itself; no configured plugins give
  the empty list.
\<close>

definition normalizePluginsConfig :: "plugin_entry list option \<Rightarrow> (plugin_spec \<times> provider) list" where
  "normalizePluginsConfig plugins =
     (case plugins of None \<Rightarrow> [] | Some ps \<Rightarrow> map normalize_entry ps)"

text \<open>\<open>plugin.features || plugin.constructor.features\<close>: an array, even empty, is truthy.\<close>

definition features_of :: "plugin \<Rightarrow> string list option" where
  "features_of p =
     (case plugin_features p of Some fs \<Rightarrow> Some fs
      | None \<Rightarrow> static_features (plugin_constructor p))"

text \<open>
  Modelled from the spec: the features, the requirements and the name that
  \<open>verifyPlugins\<close> reads from the first element of a configuration tuple.
\<close>

definition spec_features :: "plugin_spec \<Rightarrow> string list" where
  "spec_features s =
     (case s of
        PluginClass c \<Rightarrow> (case static_features c of None \<Rightarrow> [] | Some fs \<Rightarrow> fs)
      | PluginObject p \<Rightarrow> (case features_of p of None \<Rightarrow> [] | Some fs \<Rightarrow> fs))"

definition spec_requires :: "plugin_spec \<Rightarrow> string list" where
  "spec_requires s =
     (case s of
        PluginClass c \<Rightarrow> (case static_requires c of None \<Rightarrow> [] | Some rs \<Rightarrow> rs)
      | PluginObject p \<Rightarrow>
          (case static_requires (plugin_constructor p) of None \<Rightarrow> [] | Some rs \<Rightarrow> rs))"

definition spec_name :: "plugin_spec \<Rightarrow> string" where
  "spec_name s = (case s of PluginClass c \<Rightarrow> class_name c | PluginObject p \<Rightarrow> plugin_name p)"

text \<open>
  Modelled from the spec: \<open>verifyPlugins\<close> (\<open>plugins/-private/utils\<close>) is not among the
  sources. The spec: "every declared requires entry for every plugin must be
  satisfiable by some features entry among the other configured plugins; if not, fail
  with a configuration error naming the missing feature and the requiring plugin".
  \<open>None\<close> is a verified list.
\<close>

fun verify_from :: "plugin_spec list \<Rightarrow> plugin_spec list \<Rightarrow> error option" where
  "verify_from earlier [] = None"
| "verify_from earlier (p # later) =
     (case find (\<lambda>r. r \<notin> set (concat (map spec_features (earlier @ later)))) (spec_requires p) of
        Some r \<Rightarrow> Some (UnsatisfiedRequirement r (spec_name p))
      | None \<Rightarrow> verify_from (earlier @ [p]) later)"

text \<open>Modelled from the spec: \<open>verifyPlugins\<close> itself, over the first elements of the tuples.\<close>

definition verifyPlugins :: "(plugin_spec \<times> provider) list \<Rightarrow> error option" where
  "verifyPlugins plugins = verify_from [] (map fst plugins)"

text \<open>\<open>new PluginClass(table)\<close>, then \<open>setOwner(plugin, owner)\<close> once the owner is known.\<close>

definition new_plugin :: "plugin_class \<Rightarrow> nat \<Rightarrow> nat \<Rightarrow> plugin" where
  "new_plugin c a r =
     \<lparr>plugin_ref = r, plugin_constructor = c, plugin_name = inst_name c,
      plugin_features = inst_features c, plugin_meta = inst_meta c,
      plugin_table = Some a, plugin_owner = None\<rparr>"

definition alloc :: "nat eff" where
  "alloc w = (Inr (heap_next w), w\<lparr>heap_next := Suc (heap_next w)\<rparr>)"

text \<open>The body of \<open>plugins.map((tuple) => ...)\<close> for the table at address \<open>a\<close>.\<close>

definition instantiate_one :: "nat \<Rightarrow> plugin_spec \<times> provider \<Rightarrow> plugin eff" where
  "instantiate_one a tuple =
     (case fst tuple of
        PluginClass c \<Rightarrow>
          bindE alloc (\<lambda>r. (\<lambda>w.
            (case table_owner (tables w a) of
               None \<Rightarrow> throwE NoOwner w
             | Some owner \<Rightarrow> returnE ((new_plugin c a r)\<lparr>plugin_owner := Some owner\<rparr>) w)))
      | PluginObject p \<Rightarrow> returnE p)"

fun instantiate :: "nat \<Rightarrow> (plugin_spec \<times> provider) list \<Rightarrow> plugin list eff" where
  "instantiate a [] = returnE []"
| "instantiate a (tuple # rest) =
     bindE (instantiate_one a tuple) (\<lambda>p.
     bindE (instantiate a rest) (\<lambda>ps. returnE (p # ps)))"

definition set_plugins_cache :: "nat \<Rightarrow> plugin list \<Rightarrow> unit eff" where
  "set_plugins_cache a ps w =
     (Inr (), w\<lparr>tables := (tables w)(a := (tables w a)\<lparr>plugins_cache := Some ps\<rparr>)\<rparr>)"

text \<open>
  The getter \<open>Table.plugins\<close>. It is \<open>@cached\<close> over the \<open>@tracked\<close> field \<open>args\<close>: the
  body runs when no memo is valid, and its result is kept until \<open>args\<close> is assigned.
\<close>

definition Table_plugins :: "nat \<Rightarrow> plugin list eff" where
  "Table_plugins a w =
     (case plugins_cache (tables w a) of
        Some ps \<Rightarrow> returnE ps w
      | None \<Rightarrow>
          (case args (tables w a) of
             None \<Rightarrow> throwE TypeError w
           | Some named \<Rightarrow>
               (let plugins = normalizePluginsConfig (config_plugins named) in
                case verifyPlugins plugins of
                  Some e \<Rightarrow> throwE e w
                | None \<Rightarrow>
                    bindE (instantiate a plugins) (\<lambda>ps.
                    bindE (set_plugins_cache a ps) (\<lambda>_. returnE ps)) w)))"

text \<open>\<open>plugin instanceof klass\<close>: \<open>klass\<close> is the plugin's class or on its prototype chain.\<close>

definition instance_of :: "plugin \<Rightarrow> plugin_class \<Rightarrow> bool" where
  "instance_of p klass =
     (class_id (plugin_constructor p) = class_id klass
      \<or> class_id klass \<in> set (class_supers (plugin_constructor p)))"

definition pluginOf :: "nat \<Rightarrow> plugin_class \<Rightarrow> plugin option eff" where
  "pluginOf a klass =
     bindE (Table_plugins a) (\<lambda>ps. returnE (find (\<lambda>p. instance_of p klass) ps))"


definition resetScrollContainer :: "table \<Rightarrow> table" where
  "resetScrollContainer t =
     (case scrollTop t of None \<Rightarrow> t | Some _ \<Rightarrow> t\<lparr>scrollTop := Some 0\<rparr>)"

text \<open>
  \<open>Table.modify\<close>. Assigning the tracked \<open>args\<close> invalidates the memo of \<open>plugins\<close>.
  \<open>guidFor(this)\<close> is the table's identity key.
\<close>

definition modify_table :: "table_config \<Rightarrow> table \<Rightarrow> table" where
  "modify_table named t =
     (let t1 = t\<lparr>args := Some named, plugins_cache := None\<rparr> in
      case preferences t1 of
        None \<Rightarrow>
          (let pc = (case config_preferences named of
                       None \<Rightarrow> \<lparr>config_key = None, config_adapter = None\<rparr>
                     | Some c \<Rightarrow> c);
               key = (case config_key pc of None \<Rightarrow> TABLE_KEY t1 | Some k \<Rightarrow> k)
           in t1\<lparr>preferences := Some (new_TablePreferences key (config_adapter pc))\<rparr>)
      | Some _ \<Rightarrow> resetScrollContainer t1)"

definition Table_modify :: "nat \<Rightarrow> table_config \<Rightarrow> world \<Rightarrow> world" where
  "Table_modify a named w = w\<lparr>tables := (tables w)(a := modify_table named (tables w a))\<rparr>"

section \<open>The metadata cache\<close>

definition is_WeakMap :: "meta_map \<Rightarrow> bool" where
  "is_WeakMap m = (m \<noteq> TABLE_META)"

definition is_string_key :: "root_key \<Rightarrow> bool" where
  "is_string_key k = (case k of StringKey _ \<Rightarrow> True | ObjectKey _ \<Rightarrow> False)"

definition bucket_of :: "world \<Rightarrow> meta_map \<Rightarrow> root_key \<Rightarrow> (nat \<rightharpoonup> meta_inst)" where
  "bucket_of w m rootKey = (case meta_maps w m rootKey of None \<Rightarrow> Map.empty | Some b \<Rightarrow> b)"

text \<open>\<open>bucket = map.get(rootKey); if (!bucket) { bucket = new Map(); map.set(rootKey, bucket) }\<close>\<close>

definition ensure_bucket :: "meta_map \<Rightarrow> root_key \<Rightarrow> unit eff" where
  "ensure_bucket m rootKey w =
     (case meta_maps w m rootKey of
        Some _ \<Rightarrow> (Inr (), w)
      | None \<Rightarrow> (Inr (), w\<lparr>meta_maps := (meta_maps w)(m := (meta_maps w m)(rootKey \<mapsto> Map.empty))\<rparr>))"

definition bucket_get :: "meta_map \<Rightarrow> root_key \<Rightarrow> nat \<Rightarrow> meta_inst option eff" where
  "bucket_get m rootKey cid w = (Inr (bucket_of w m rootKey cid), w)"

text \<open>\<open>bucket.set(mapKey, instance)\<close>; a replaced object is noted.\<close>

definition bucket_set :: "meta_map \<Rightarrow> root_key \<Rightarrow> nat \<Rightarrow> meta_inst \<Rightarrow> unit eff" where
  "bucket_set m rootKey cid i w =
     (Inr (), w\<lparr>meta_maps := (meta_maps w)
                  (m := (meta_maps w m)(rootKey \<mapsto> (bucket_of w m rootKey)(cid \<mapsto> i))),
                replaced := (case bucket_of w m rootKey cid of
                               None \<Rightarrow> replaced w
                             | Some _ \<Rightarrow> replaced w @ [(m, rootKey, cid)])\<rparr>)"

text \<open>
  \<open>getPluginInstance\<close>. Both branches of \<open>map instanceof WeakMap\<close> get or create the
  bucket and differ in their assertion only. A stored instance is an object, hence
  truthy, so \<open>if (instance)\<close> is the test that the bucket has the key.
\<close>

definition assert_root_key :: "meta_map \<Rightarrow> root_key \<Rightarrow> unit eff" where
  "assert_root_key m rootKey =
     (if is_WeakMap m
      then assertE CannotUseStringKey (\<not> is_string_key rootKey)
      else assertE CannotUseObjectKey (is_string_key rootKey))"

definition getPluginInstance ::
  "meta_map \<Rightarrow> root_key \<Rightarrow> plugin_class \<Rightarrow> meta_inst eff \<Rightarrow> meta_inst eff" where
  "getPluginInstance m rootKey mapKey factory =
     bindE (assert_root_key m rootKey) (\<lambda>_.
     bindE (ensure_bucket m rootKey) (\<lambda>_.
     bindE (bucket_get m rootKey (class_id mapKey)) (\<lambda>instance.
       case instance of
         Some i \<Rightarrow> returnE i
       | None \<Rightarrow>
           bindE factory (\<lambda>i.
           bindE (bucket_set m rootKey (class_id mapKey) i) (\<lambda>_. returnE i)))))"

text \<open>
  What \<open>new M(entity)\<close> stands for in a factory closure: given the meta class, the
  entity and the slot the object is made for, a computation that yields the object.
\<close>

type_synonym constructor = "meta_class \<Rightarrow> entity \<Rightarrow> slot \<Rightarrow> meta_inst eff"

text \<open>
  The factory closures of \<open>meta.forColumn\<close>, \<open>meta.forRow\<close> and \<open>meta.forTable\<close>, over
  what \<open>new\<close> runs.
\<close>

definition forColumn_factory_with :: "constructor \<Rightarrow> column \<Rightarrow> plugin_class \<Rightarrow> meta_inst eff" where
  "forColumn_factory_with ctor col klass =
     bindE (pluginOf (column_table col) klass) (\<lambda>plugin.
       case plugin of
         None \<Rightarrow> throwE (UnregisteredPlugin (class_name klass))
       | Some p \<Rightarrow>
           (case plugin_meta p of
              None \<Rightarrow> throwE (NoMetaSpecified (plugin_name p))
            | Some ms \<Rightarrow>
                (case meta_column ms of
                   None \<Rightarrow> throwE (NoColumnMeta (plugin_name p))
                 | Some M \<Rightarrow>
                     ctor M (EColumn col)
                       (COLUMN_META, ObjectKey (column_ref col), class_id klass))))"

definition forRow_factory_with :: "constructor \<Rightarrow> row \<Rightarrow> plugin_class \<Rightarrow> meta_inst eff" where
  "forRow_factory_with ctor r klass =
     bindE (pluginOf (row_table r) klass) (\<lambda>plugin.
       case plugin of
         None \<Rightarrow> throwE (UnregisteredPlugin (class_name klass))
       | Some p \<Rightarrow>
           (case plugin_meta p of
              None \<Rightarrow> throwE (NoMetaSpecified (plugin_name p))
            | Some ms \<Rightarrow>
                (case meta_row ms of
                   None \<Rightarrow> throwE (NoRowMeta (plugin_name p))
                 | Some M \<Rightarrow>
                     ctor M (ERow r)
                       (ROW_META, ObjectKey (row_ref r), class_id klass))))"

text \<open>
  The last assertion reads the keys of the table's bucket at the moment it runs,
  before the constructor is called:
  \<open>![...(TABLE_META.get(table[TABLE_KEY])?.keys() ?? [])].includes(klass)\<close>.
\<close>

definition forTable_factory_with :: "constructor \<Rightarrow> nat \<Rightarrow> plugin_class \<Rightarrow> meta_inst eff" where
  "forTable_factory_with ctor a klass =
     bindE (pluginOf a klass) (\<lambda>plugin.
       case plugin of
         None \<Rightarrow> throwE (UnregisteredPlugin (class_name klass))
       | Some p \<Rightarrow>
           (case plugin_meta p of
              None \<Rightarrow> throwE (NoMetaSpecified (plugin_name p))
            | Some ms \<Rightarrow>
                (case meta_table ms of
                   None \<Rightarrow> throwE (NoTableMeta (plugin_name p))
                 | Some M \<Rightarrow> (\<lambda>w.
                     bindE (assertE (PluginAlreadyExists (plugin_name p))
                              (case bucket_of w TABLE_META (StringKey (TABLE_KEY (tables w a))) (class_id klass) of
                                 None \<Rightarrow> True | Some _ \<Rightarrow> False))
                       (\<lambda>_. ctor M (ETable a)
                          (TABLE_META, StringKey (TABLE_KEY (tables w a)), class_id klass)) w))))"

text \<open>\<open>meta.forColumn\<close>, \<open>meta.forRow\<close> and \<open>meta.forTable\<close>, over what \<open>new\<close> runs.\<close>

definition meta_forColumn_with :: "constructor \<Rightarrow> column \<Rightarrow> plugin_class \<Rightarrow> meta_inst eff" where
  "meta_forColumn_with ctor col klass =
     getPluginInstance COLUMN_META (ObjectKey (column_ref col)) klass
       (forColumn_factory_with ctor col klass)"

definition meta_forRow_with :: "constructor \<Rightarrow> row \<Rightarrow> plugin_class \<Rightarrow> meta_inst eff" where
  "meta_forRow_with ctor r klass =
     getPluginInstance ROW_META (ObjectKey (row_ref r)) klass (forRow_factory_with ctor r klass)"

definition meta_forTable_with :: "constructor \<Rightarrow> nat \<Rightarrow> plugin_class \<Rightarrow> meta_inst eff" where
  "meta_forTable_with ctor a klass w =
     getPluginInstance TABLE_META (StringKey (TABLE_KEY (tables w a))) klass
       (forTable_factory_with ctor a klass) w"

text \<open>
  The class argument of an accessor call made by a constructor. The accessors read
  the identity and the name of their class argument, nothing else.
\<close>

definition class_of_lookup :: "nat \<Rightarrow> string \<Rightarrow> plugin_class" where
  "class_of_lookup cid cname =
     \<lparr>class_id = cid, class_name = cname, class_supers = [], static_features = None,
      static_requires = None, inst_name = [], inst_features = None, inst_meta = None\<rparr>"

definition lookup_with :: "constructor \<Rightarrow> lookup \<Rightarrow> unit eff" where
  "lookup_with ctor l =
     (case l of
        LookupTable a cid cname \<Rightarrow>
          bindE (meta_forTable_with ctor a (class_of_lookup cid cname)) (\<lambda>_. returnE ())
      | LookupColumn col cid cname \<Rightarrow>
          bindE (meta_forColumn_with ctor col (class_of_lookup cid cname)) (\<lambda>_. returnE ())
      | LookupRow r cid cname \<Rightarrow>
          bindE (meta_forRow_with ctor r (class_of_lookup cid cname)) (\<lambda>_. returnE ()))"

definition note_nested :: "unit eff" where
  "note_nested w = (Inr (), w\<lparr>nested := Suc (nested w)\<rparr>)"

text \<open>The accessor calls of a constructor body, in order; the first that throws ends it.\<close>

fun run_lookups :: "(lookup \<Rightarrow> unit eff) \<Rightarrow> lookup list \<Rightarrow> unit eff" where
  "run_lookups f [] = returnE ()"
| "run_lookups f (l # ls) = bindE note_nested (\<lambda>_. bindE (f l) (\<lambda>_. run_lookups f ls))"

text \<open>
  Entering a constructor: \<open>new\<close> has allocated the object, the call is recorded under
  the slot it is made for, and the constructor learns how often it ran before.
\<close>

definition enter_constructor :: "meta_class \<Rightarrow> slot \<Rightarrow> (nat \<times> nat) eff" where
  "enter_constructor M slot w =
     (Inr (heap_next w, ctor_runs w (mc_id M)),
      w\<lparr>heap_next := Suc (heap_next w),
        ctor_runs := (ctor_runs w)(mc_id M := Suc (ctor_runs w (mc_id M))),
        constructed := constructed w @ [slot]\<rparr>)"

text \<open>
  \<open>new M(entity)\<close> with room for \<open>n\<close> nested constructor calls on the stack. The
  accessor calls of the body run the accessors again, with one call less of room;
  with no room left the call throws.
\<close>

primrec construct_within :: "nat \<Rightarrow> constructor" where
  "construct_within 0 = (\<lambda>M e slot. throwE RangeError)"
| "construct_within (Suc n) =
     (\<lambda>M e slot.
        bindE (enter_constructor M slot) (\<lambda>entered.
        bindE (run_lookups (lookup_with (construct_within n)) (mc_body M (snd entered) e)) (\<lambda>_.
        returnE \<lparr>meta_ref = fst entered, meta_of_class = mc_id M, meta_entity = e,
                 meta_members = mc_props M e\<rparr>)))"

text \<open>\<open>new M(entity)\<close> as the accessors call it.\<close>

definition construct_meta :: constructor where
  "construct_meta M e slot w = construct_within (stack_limit w) M e slot w"

definition forColumn_factory :: "column \<Rightarrow> plugin_class \<Rightarrow> meta_inst eff" where
  "forColumn_factory = forColumn_factory_with construct_meta"

definition forRow_factory :: "row \<Rightarrow> plugin_class \<Rightarrow> meta_inst eff" where
  "forRow_factory = forRow_factory_with construct_meta"

definition forTable_factory :: "nat \<Rightarrow> plugin_class \<Rightarrow> meta_inst eff" where
  "forTable_factory = forTable_factory_with construct_meta"

definition meta_forColumn :: "column \<Rightarrow> plugin_class \<Rightarrow> meta_inst eff" where
  "meta_forColumn col klass =
     getPluginInstance COLUMN_META (ObjectKey (column_ref col)) klass (forColumn_factory col klass)"

definition meta_forRow :: "row \<Rightarrow> plugin_class \<Rightarrow> meta_inst eff" where
  "meta_forRow r klass =
     getPluginInstance ROW_META (ObjectKey (row_ref r)) klass (forRow_factory r klass)"

definition meta_forTable :: "nat \<Rightarrow> plugin_class \<Rightarrow> meta_inst eff" where
  "meta_forTable a klass w =
     getPluginInstance TABLE_META (StringKey (TABLE_KEY (tables w a))) klass
       (forTable_factory a klass) w"

section \<open>The feature resolver\<close>

definition provides :: "string \<Rightarrow> plugin \<Rightarrow> bool" where
  "provides featureName p =
     (case features_of p of None \<Rightarrow> False | Some fs \<Rightarrow> featureName \<in> set fs)"

definition findPlugin :: "plugin list \<Rightarrow> string \<Rightarrow> plugin option" where
  "findPlugin plugins featureName = find (provides featureName) plugins"

fun join_comma :: "string list \<Rightarrow> string" where
  "join_comma [] = []"
| "join_comma [x] = x"
| "join_comma (x # y # ys) = x @ '', '' @ join_comma (y # ys)"

text \<open>\<open>.flat()\<close> keeps an \<open>undefined\<close> entry; \<open>.filter(Boolean)\<close> drops it and the empty string.\<close>

definition availableFeatures :: "plugin list \<Rightarrow> string" where
  "availableFeatures plugins =
     (let allFeatures =
            filter (\<lambda>f. f \<noteq> [])
              (concat (map (\<lambda>p. case features_of p of None \<Rightarrow> [] | Some fs \<Rightarrow> fs) plugins))
      in if length allFeatures > 0 then join_comma allFeatures else ''[none]'')"

definition withFeature_forColumn :: "column \<Rightarrow> string \<Rightarrow> meta_inst eff" where
  "withFeature_forColumn col featureName =
     bindE (Table_plugins (column_table col)) (\<lambda>plugins.
       case findPlugin plugins featureName of
         None \<Rightarrow> throwE (FeatureNotFound featureName (availableFeatures plugins))
       | Some provider \<Rightarrow> meta_forColumn col (plugin_constructor provider))"

definition withFeature_forTable :: "nat \<Rightarrow> string \<Rightarrow> meta_inst eff" where
  "withFeature_forTable a featureName =
     bindE (Table_plugins a) (\<lambda>plugins.
       case findPlugin plugins featureName of
         None \<Rightarrow> throwE (FeatureNotFound featureName (availableFeatures plugins))
       | Some provider \<Rightarrow> meta_forTable a (plugin_constructor provider))"

section \<open>The options resolver\<close>

definition is_class :: "plugin_class \<Rightarrow> plugin_spec \<times> provider \<Rightarrow> bool" where
  "is_class klass option =
     (case fst option of PluginClass c \<Rightarrow> class_id c = class_id klass | PluginObject _ \<Rightarrow> False)"

text \<open>\<open>options.forTable\<close>. The getter \<open>table.config\<close> reads \<open>this.args.named\<close>.\<close>

definition options_forTable :: "table \<Rightarrow> plugin_class \<Rightarrow> error + js_obj" where
  "options_forTable t klass =
     (case args t of
        None \<Rightarrow> Inl TypeError
      | Some config \<Rightarrow>
          (let normalized = normalizePluginsConfig (config_plugins config) in
           case find (is_class klass) normalized of
             None \<Rightarrow> Inr Map.empty
           | Some tuple \<Rightarrow>
               (case (snd tuple) () of None \<Rightarrow> Inr Map.empty | Some opts \<Rightarrow> Inr opts)))"

definition options_forColumn :: "column \<Rightarrow> plugin_class \<Rightarrow> js_obj" where
  "options_forColumn col klass =
     (case pluginOptions col of
        None \<Rightarrow> Map.empty
      | Some pos \<Rightarrow>
          (case find (\<lambda>option. fst option = class_id klass) pos of
             None \<Rightarrow> Map.empty
           | Some tuple \<Rightarrow>
               (case snd tuple of
                  None \<Rightarrow> Map.empty
                | Some fn \<Rightarrow> (case fn () of None \<Rightarrow> Map.empty | Some opts \<Rightarrow> opts))))"

section \<open>The preferences facade\<close>

text \<open>
  \<open>table.preferences\<close> is unset before the first \<open>modify\<close>; reading \<open>prefs.storage\<close> then
  throws a \<open>TypeError\<close>.
\<close>

definition with_prefs ::
  "nat \<Rightarrow> (table_preferences \<Rightarrow> 'a \<times> table_preferences) \<Rightarrow> 'a eff" where
  "with_prefs a f w =
     (case preferences (tables w a) of
        None \<Rightarrow> (Inl TypeError, w)
      | Some prefs \<Rightarrow>
          (let (x, prefs') = f prefs
           in (Inr x, w\<lparr>tables := (tables w)(a := (tables w a)\<lparr>preferences := Some prefs'\<rparr>)\<rparr>)))"

definition preferences_forColumn_delete :: "column \<Rightarrow> plugin_class \<Rightarrow> string \<Rightarrow> unit eff" where
  "preferences_forColumn_delete col klass key =
     with_prefs (column_table col) (\<lambda>prefs.
       ((), persist (storage_delete prefs (class_name klass) (ColumnScope (column_key col)) key)))"

definition preferences_forColumn_get :: "column \<Rightarrow> plugin_class \<Rightarrow> string \<Rightarrow> js_val eff" where
  "preferences_forColumn_get col klass key =
     with_prefs (column_table col) (\<lambda>prefs.
       (storage_get prefs (class_name klass) (ColumnScope (column_key col)) key, prefs))"

definition preferences_forColumn_set ::
  "column \<Rightarrow> plugin_class \<Rightarrow> string \<Rightarrow> js_val \<Rightarrow> unit eff" where
  "preferences_forColumn_set col klass key v =
     with_prefs (column_table col) (\<lambda>prefs.
       ((), persist (storage_set prefs (class_name klass) (ColumnScope (column_key col)) key v)))"

definition preferences_forTable_delete :: "nat \<Rightarrow> plugin_class \<Rightarrow> string \<Rightarrow> unit eff" where
  "preferences_forTable_delete a klass key =
     with_prefs a (\<lambda>prefs. ((), persist (storage_delete prefs (class_name klass) TableScope key)))"

definition preferences_forTable_get :: "nat \<Rightarrow> plugin_class \<Rightarrow> string \<Rightarrow> js_val eff" where
  "preferences_forTable_get a klass key =
     with_prefs a (\<lambda>prefs. (storage_get prefs (class_name klass) TableScope key, prefs))"

definition preferences_forTable_set :: "nat \<Rightarrow> plugin_class \<Rightarrow> string \<Rightarrow> js_val \<Rightarrow> unit eff" where
  "preferences_forTable_set a klass key v =
     with_prefs a (\<lambda>prefs. ((), persist (storage_set prefs (class_name klass) TableScope key v)))"

section \<open>The sticky-columns plugin\<close>

definition BasePlugin_id :: nat where
  "BasePlugin_id = 0"

definition TableMeta :: meta_class where
  "TableMeta =
     \<lparr>mc_id = 0,
      mc_props = (\<lambda>_. \<lparr>mp_width = None, mp_columnsBefore = None, mp_columnsAfter = None\<rparr>),
      mc_body = (\<lambda>_ _. [])\<rparr>"

definition ColumnMeta :: meta_class where
  "ColumnMeta =
     \<lparr>mc_id = 1,
      mc_props = (\<lambda>_. \<lparr>mp_width = None, mp_columnsBefore = None, mp_columnsAfter = None\<rparr>),
      mc_body = (\<lambda>_ _. [])\<rparr>"

definition StickyColumns :: plugin_class where
  "StickyColumns =
     \<lparr>class_id = 1, class_name = ''StickyColumns'', class_supers = [BasePlugin_id],
      static_features = None,
      static_requires = Some [''columnWidth'', ''columnVisibility''],
      inst_name = ''sticky-columns'', inst_features = None,
      inst_meta = Some \<lparr>meta_column = Some ColumnMeta, meta_table = Some TableMeta,
                        meta_row = None\<rparr>\<rparr>"

datatype position = Left | Right | NoPosition

text \<open>\<open>options.forColumn(this.column, StickyColumns)?.sticky\<close>\<close>

definition sticky_option :: "column \<Rightarrow> js_val" where
  "sticky_option col =
     (case options_forColumn col StickyColumns ''sticky'' of None \<Rightarrow> JUndefined | Some v \<Rightarrow> v)"

text \<open>The getter \<open>position\<close>: the assertion, then \<open>sticky || 'none'\<close>.\<close>

definition ColumnMeta_position :: "column \<Rightarrow> error + position" where
  "ColumnMeta_position col =
     (let sticky = sticky_option col in
      if sticky = JStr ''left'' \<or> sticky = JStr ''right'' \<or> sticky = JBool False
         \<or> sticky = JUndefined
      then Inr (if sticky = JStr ''left'' then Left
                else if sticky = JStr ''right'' then Right else NoPosition)
      else Inl (InvalidSticky sticky))"

definition ColumnMeta_isSticky :: "column \<Rightarrow> error + bool" where
  "ColumnMeta_isSticky col =
     (case ColumnMeta_position col of Inl e \<Rightarrow> Inl e | Inr p \<Rightarrow> Inr (p \<noteq> NoPosition))"

text \<open>\<open>typeof obj === 'object' && obj && 'width' in obj\<close>, on a meta object.\<close>

definition hasWidth :: "meta_inst \<Rightarrow> bool" where
  "hasWidth obj = (mp_width (meta_members obj) \<noteq> None)"

text \<open>The integers that are doubles and whose successor and predecessor are too.\<close>

definition safe_integer :: "int \<Rightarrow> bool" where
  "safe_integer n = (- 9007199254740991 \<le> n \<and> n \<le> 9007199254740991)"

text \<open>The Number an arithmetic yields whose exact result is the integer \<open>n\<close>.\<close>

definition number_of :: "int \<Rightarrow> js_val" where
  "number_of n = (if safe_integer n then JNum n else JUnknown)"

definition digit_char :: "nat \<Rightarrow> char" where
  "digit_char d = ''0123456789'' ! d"

function decimal :: "nat \<Rightarrow> string" where
  "decimal n = (let q = n div 10 in (if q = 0 then [] else decimal q) @ [digit_char (n mod 10)])"
  by pat_completeness auto
termination
  by (relation "measure (\<lambda>n. n)") auto

text \<open>
  \<open>Number::toString\<close>: decimal digits for an integer in the range of \<open>JNum\<close>; other
  Numbers print in ways the model does not determine (exponent notation from
  \<open>1e21\<close> on, fractions).
\<close>

definition number_toString :: "int \<Rightarrow> js_val" where
  "number_toString n =
     (if safe_integer n
      then JStr (if 0 \<le> n then decimal (nat n) else CHR ''-'' # decimal (nat (- n)))
      else JUnknown)"

text \<open>The abstract operation \<open>ToString\<close> on a primitive.\<close>

definition js_toString :: "js_val \<Rightarrow> js_val" where
  "js_toString v =
     (case v of
        JUndefined \<Rightarrow> JStr ''undefined''
      | JNull \<Rightarrow> JStr ''null''
      | JBool b \<Rightarrow> JStr (if b then ''true'' else ''false'')
      | JNum n \<Rightarrow> number_toString n
      | JStr x \<Rightarrow> JStr x
      | JUnknown \<Rightarrow> JUnknown)"

text \<open>
  The abstract operation \<open>ToNumber\<close> on a primitive that is not a String; \<open>undefined\<close>
  gives NaN.
\<close>

definition js_toNumber :: "js_val \<Rightarrow> js_val" where
  "js_toNumber v =
     (case v of
        JUndefined \<Rightarrow> JUnknown
      | JNull \<Rightarrow> JNum 0
      | JBool b \<Rightarrow> JNum (if b then 1 else 0)
      | JNum n \<Rightarrow> number_of n
      | JStr x \<Rightarrow> JUnknown
      | JUnknown \<Rightarrow> JUnknown)"

definition is_JStr :: "js_val \<Rightarrow> bool" where
  "is_JStr v = (case v of JStr _ \<Rightarrow> True | _ \<Rightarrow> False)"

text \<open>
  The operator \<open>+\<close> on primitives: with a String operand it concatenates the two
  \<open>ToString\<close>s, otherwise it adds the two \<open>ToNumber\<close>s.
\<close>

definition js_plus :: "js_val \<Rightarrow> js_val \<Rightarrow> js_val" where
  "js_plus a b =
     (if a = JUnknown \<or> b = JUnknown then JUnknown
      else if is_JStr a \<or> is_JStr b then
        (case js_toString a of
           JStr x \<Rightarrow> (case js_toString b of JStr y \<Rightarrow> JStr (x @ y) | _ \<Rightarrow> JUnknown)
         | _ \<Rightarrow> JUnknown)
      else
        (case js_toNumber a of
           JNum x \<Rightarrow> (case js_toNumber b of JNum y \<Rightarrow> number_of (x + y) | _ \<Rightarrow> JUnknown)
         | _ \<Rightarrow> JUnknown))"

text \<open>\<open>columnMeta.width ?? 0\<close>, for a meta object that has the property.\<close>

definition width_or_zero :: "meta_inst \<Rightarrow> js_val" where
  "width_or_zero obj =
     (case mp_width (meta_members obj) of
        None \<Rightarrow> JNum 0
      | Some v \<Rightarrow> (if v = JUndefined \<or> v = JNull then JNum 0 else v))"

text \<open>The callback of both \<open>reduce\<close> calls in the getter \<open>offset\<close>.\<close>

definition add_width :: "js_val \<Rightarrow> column \<Rightarrow> js_val eff" where
  "add_width acc col =
     bindE (withFeature_forColumn col ''columnWidth'') (\<lambda>columnMeta.
       if hasWidth columnMeta then returnE (js_plus acc (width_or_zero columnMeta))
       else returnE acc)"

fun reduceE :: "('b \<Rightarrow> 'a \<Rightarrow> 'b eff) \<Rightarrow> 'a list \<Rightarrow> 'b \<Rightarrow> 'b eff" where
  "reduceE f [] acc = returnE acc"
| "reduceE f (x # xs) acc = bindE (f acc x) (\<lambda>acc'. reduceE f xs acc')"

text \<open>The template literal \<open>`${n}px`\<close>.\<close>

definition px :: "js_val \<Rightarrow> js_val" where
  "px n = (case js_toString n of JStr x \<Rightarrow> JStr (x @ ''px'') | _ \<Rightarrow> JUnknown)"

text \<open>
  The body of the getter \<open>offset\<close>, as its first read runs it (the getter is \<open>@cached\<close>);
  \<open>None\<close> is \<open>undefined\<close>.
\<close>

definition ColumnMeta_offset :: "column \<Rightarrow> js_val option eff" where
  "ColumnMeta_offset col =
     (case ColumnMeta_isSticky col of
        Inl e \<Rightarrow> throwE e
      | Inr sticky \<Rightarrow>
          if \<not> sticky then returnE None
          else
            bindE (withFeature_forTable (column_table col) ''columnVisibility'') (\<lambda>visiblility.
              case ColumnMeta_position col of
                Inl e \<Rightarrow> throwE e
              | Inr Left \<Rightarrow>
                  (case mp_columnsBefore (meta_members visiblility) of
                     None \<Rightarrow> throwE TypeError
                   | Some columnsBefore \<Rightarrow>
                       bindE (reduceE add_width (columnsBefore col) (JNum 0)) (\<lambda>left.
                         returnE (Some (px left))))
              | Inr Right \<Rightarrow>
                  (case mp_columnsAfter (meta_members visiblility) of
                     None \<Rightarrow> throwE TypeError
                   | Some columnsAfter \<Rightarrow>
                       bindE (reduceE add_width (columnsAfter col) (JNum 0)) (\<lambda>right.
                         returnE (Some (px right))))
              | Inr NoPosition \<Rightarrow> returnE None))"

definition position_name :: "position \<Rightarrow> string" where
  "position_name p = (case p of Left \<Rightarrow> ''left'' | Right \<Rightarrow> ''right'' | NoPosition \<Rightarrow> ''none'')"

text \<open>The getter \<open>style\<close>: \<open>{ position: 'sticky', [this.position]: this.offset, zIndex: '8' }\<close>.\<close>

definition ColumnMeta_style :: "column \<Rightarrow> js_obj eff" where
  "ColumnMeta_style col =
     (case ColumnMeta_isSticky col of
        Inl e \<Rightarrow> throwE e
      | Inr sticky \<Rightarrow>
          if sticky then
            (case ColumnMeta_position col of
               Inl e \<Rightarrow> throwE e
             | Inr p \<Rightarrow>
                 bindE (ColumnMeta_offset col) (\<lambda>offset.
                   returnE (Map.empty
                     (''position'' \<mapsto> JStr ''sticky'',
                      position_name p \<mapsto> (case offset of None \<Rightarrow> JUndefined | Some v \<Rightarrow> v),
                      ''zIndex'' \<mapsto> JStr ''8''))))
          else returnE Map.empty)"




section \<open>Sequences of cache lookups\<close>




definition cached :: "world \<Rightarrow> meta_map \<times> root_key \<times> nat \<Rightarrow> meta_inst option" where
  "cached w slot = (case slot of (m, rootKey, cid) \<Rightarrow> bucket_of w m rootKey cid)"



section \<open>Example configurations\<close>

text \<open>
  Two plugins \<open>A\<close> and \<open>B\<close> that both declare the feature \<open>w\<close>, configured in that order
  on one table, with one column and one row.
\<close>

definition no_members :: meta_props where
  "no_members = \<lparr>mp_width = None, mp_columnsBefore = None, mp_columnsAfter = None\<rparr>"

definition MetaA :: meta_class where
  "MetaA = \<lparr>mc_id = 10, mc_props = (\<lambda>_. no_members), mc_body = (\<lambda>_ _. [])\<rparr>"

definition MetaB :: meta_class where
  "MetaB = \<lparr>mc_id = 11, mc_props = (\<lambda>_. no_members), mc_body = (\<lambda>_ _. [])\<rparr>"

definition PluginA :: plugin_class where
  "PluginA =
     \<lparr>class_id = 10, class_name = ''A'', class_supers = [BasePlugin_id],
      static_features = Some [''w''], static_requires = None,
      inst_name = ''a'', inst_features = None,
      inst_meta = Some \<lparr>meta_column = Some MetaA, meta_table = Some MetaA, meta_row = Some MetaA\<rparr>\<rparr>"

definition PluginB :: plugin_class where
  "PluginB =
     \<lparr>class_id = 11, class_name = ''B'', class_supers = [BasePlugin_id],
      static_features = Some [''w''], static_requires = None,
      inst_name = ''b'', inst_features = None,
      inst_meta = Some \<lparr>meta_column = Some MetaB, meta_table = Some MetaB, meta_row = Some MetaB\<rparr>\<rparr>"

definition table_AB :: table where
  "table_AB =
     \<lparr>TABLE_KEY = ''ember1'',
      args = Some \<lparr>config_plugins = Some [Bare (PluginClass PluginA), Bare (PluginClass PluginB)],
                   config_preferences = None\<rparr>,
      plugins_cache = None, preferences = None, table_owner = Some 0, scrollTop = None\<rparr>"

text \<open>
  A world with empty meta maps and empty histories in which every table is the given
  one, with room for 16 nested constructor calls.
\<close>

definition fresh_world :: "table \<Rightarrow> world" where
  "fresh_world t =
     \<lparr>meta_maps = (\<lambda>_. Map.empty), tables = (\<lambda>_. t), heap_next = 0, stack_limit = 16,
      ctor_runs = (\<lambda>_. 0), constructed = [], replaced = [], nested = 0\<rparr>"

definition world_AB :: world where
  "world_AB = fresh_world table_AB"


definition column_1 :: column where
  "column_1 = \<lparr>column_ref = 100, column_key = ''name'', column_table = 0, pluginOptions = None\<rparr>"

definition row_1 :: row where
  "row_1 = \<lparr>row_ref = 200, row_table = 0\<rparr>"

text \<open>A table whose two plugins are configured with option providers.\<close>

definition table_with_options :: table where
  "table_with_options =
     \<lparr>TABLE_KEY = ''ember2'',
      args = Some \<lparr>config_plugins =
                     Some [WithOptions (PluginClass PluginA) (\<lambda>_. Some [''x'' \<mapsto> JNum 1]),
                           WithOptions (PluginClass PluginB) (\<lambda>_. None)],
                   config_preferences = None\<rparr>,
      plugins_cache = None, preferences = None, table_owner = Some 0, scrollTop = None\<rparr>"

text \<open>A column of the table at address 1 with a given \<open>sticky\<close> option.\<close>

definition sticky_column :: "nat \<Rightarrow> string \<Rightarrow> js_val \<Rightarrow> column" where
  "sticky_column r key v =
     \<lparr>column_ref = r, column_key = key, column_table = 1,
      pluginOptions = Some [(class_id StickyColumns, Some (\<lambda>_. Some [''sticky'' \<mapsto> v]))]\<rparr>"

definition column_a :: column where
  "column_a = \<lparr>column_ref = 101, column_key = ''a'', column_table = 1, pluginOptions = None\<rparr>"

definition column_b :: column where
  "column_b = sticky_column 102 ''b'' (JStr ''left'')"

definition column_c :: column where
  "column_c = sticky_column 103 ''c'' (JStr ''right'')"

text \<open>
  Two distinct plugin classes that carry the same \<open>klass.name\<close>, and a table whose
  preferences were set up by \<open>modify\<close>.
\<close>

definition Plugin_one :: plugin_class where
  "Plugin_one =
     \<lparr>class_id = 30, class_name = ''Plugin'', class_supers = [BasePlugin_id],
      static_features = None, static_requires = None,
      inst_name = ''one'', inst_features = None, inst_meta = None\<rparr>"

definition Plugin_two :: plugin_class where
  "Plugin_two =
     \<lparr>class_id = 31, class_name = ''Plugin'', class_supers = [BasePlugin_id],
      static_features = None, static_requires = None,
      inst_name = ''two'', inst_features = None, inst_meta = None\<rparr>"

definition world_prefs :: world where
  "world_prefs =
     Table_modify 0 \<lparr>config_plugins = None, config_preferences = None\<rparr> world_AB"















text \<open>
  A plugin whose meta constructors, the first time they run, look up the meta they
  are being constructed for: the table meta calls \<open>meta.forTable(table, Reentrant)\<close>,
  the column meta calls \<open>meta.forColumn(column, Reentrant)\<close>.
\<close>

definition ReentrantMeta :: meta_class where
  "ReentrantMeta =
     \<lparr>mc_id = 40, mc_props = (\<lambda>_. no_members),
      mc_body = (\<lambda>runs e.
                   if runs = 0 then
                     (case e of
                        ETable a \<Rightarrow> [LookupTable a 40 ''Reentrant'']
                      | EColumn c \<Rightarrow> [LookupColumn c 40 ''Reentrant'']
                      | ERow r \<Rightarrow> [LookupRow r 40 ''Reentrant''])
                   else [])\<rparr>"

definition Reentrant :: plugin_class where
  "Reentrant =
     \<lparr>class_id = 40, class_name = ''Reentrant'', class_supers = [BasePlugin_id],
      static_features = None, static_requires = None,
      inst_name = ''reentrant'', inst_features = None,
      inst_meta = Some \<lparr>meta_column = Some ReentrantMeta, meta_table = Some ReentrantMeta,
                        meta_row = Some ReentrantMeta\<rparr>\<rparr>"

definition table_reentrant :: table where
  "table_reentrant =
     \<lparr>TABLE_KEY = ''ember5'',
      args = Some \<lparr>config_plugins = Some [Bare (PluginClass Reentrant)],
                   config_preferences = None\<rparr>,
      plugins_cache = None, preferences = None, table_owner = Some 0, scrollTop = None\<rparr>"

definition world_reentrant :: world where
  "world_reentrant = fresh_world table_reentrant"

text \<open>
  A subclass of \<open>A\<close> that inherits its members, alone on a table: its one instance is
  what \<open>pluginOf\<close> finds for \<open>A\<close> and for the subclass.
\<close>

definition SubA :: plugin_class where
  "SubA =
     \<lparr>class_id = 12, class_name = ''SubA'', class_supers = [10, BasePlugin_id],
      static_features = Some [''w''], static_requires = None,
      inst_name = ''a'', inst_features = None,
      inst_meta = Some \<lparr>meta_column = Some MetaA, meta_table = Some MetaA, meta_row = Some MetaA\<rparr>\<rparr>"

definition table_SubA :: table where
  "table_SubA =
     \<lparr>TABLE_KEY = ''ember6'',
      args = Some \<lparr>config_plugins = Some [Bare (PluginClass SubA)], config_preferences = None\<rparr>,
      plugins_cache = None, preferences = None, table_owner = Some 0, scrollTop = None\<rparr>"

definition world_SubA :: world where
  "world_SubA = fresh_world table_SubA"

section \<open>What a lookup leaves in place\<close>






section \<open>Auxiliary lemmas\<close>


































































lemma construct_within_step:
  "construct_within n M e slot w =
     (if n = 0 then throwE RangeError w
      else bindE (enter_constructor M slot) (\<lambda>entered.
           bindE (run_lookups (lookup_with (construct_within (n - 1)))
                    (mc_body M (snd entered) e)) (\<lambda>_.
           returnE \<lparr>meta_ref = fst entered, meta_of_class = mc_id M, meta_entity = e,
                    meta_members = mc_props M e\<rparr>)) w)"
  by (cases n) simp_all

lemmas eval_defs = meta_forTable_def meta_forColumn_def meta_forRow_def
     getPluginInstance_def bindE_def assert_root_key_def assertE_def
     is_WeakMap_def is_string_key_def returnE_def throwE_def ensure_bucket_def bucket_get_def bucket_set_def
     bucket_of_def forTable_factory_def forColumn_factory_def forRow_factory_def
     forTable_factory_with_def forColumn_factory_with_def forRow_factory_with_def
     meta_forTable_with_def meta_forColumn_with_def meta_forRow_with_def
     lookup_with_def class_of_lookup_def note_nested_def enter_constructor_def
     pluginOf_def Table_plugins_def
     normalizePluginsConfig_def verifyPlugins_def spec_requires_def spec_features_def
     instantiate_one_def alloc_def new_plugin_def set_plugins_cache_def instance_of_def
     construct_meta_def construct_within_step fresh_world_def
     BasePlugin_id_def Let_def


lemmas reentrant_defs = world_reentrant_def table_reentrant_def Reentrant_def ReentrantMeta_def
  column_1_def row_1_def no_members_def

lemmas SubA_defs = world_SubA_def table_SubA_def SubA_def PluginA_def MetaA_def

lemma with_prefs_read:
  "preferences (tables w a) = Some prefs \<Longrightarrow>
   with_prefs a (\<lambda>p. (g p, p)) w = (Inr (g prefs), w)"
  by (simp add: with_prefs_def fun_upd_idem)

lemma with_prefs_write:
  "preferences (tables w a) = Some prefs \<Longrightarrow>
   with_prefs a (\<lambda>p. ((), g p)) w =
     (Inr (), w\<lparr>tables := (tables w)(a := (tables w a)\<lparr>preferences := Some (g prefs)\<rparr>)\<rparr>)"
  by (simp add: with_prefs_def)

lemma forTable_set_state:
  "preferences (tables w a) = Some prefs \<Longrightarrow>
   preferences (tables (snd (preferences_forTable_set a P k v w)) a)
     = Some (persist (storage_set prefs (class_name P) TableScope k v))"
  by (simp add: preferences_forTable_set_def with_prefs_write)

lemma forTable_delete_state:
  "preferences (tables w a) = Some prefs \<Longrightarrow>
   preferences (tables (snd (preferences_forTable_delete a P k w)) a)
     = Some (persist (storage_delete prefs (class_name P) TableScope k))"
  by (simp add: preferences_forTable_delete_def with_prefs_write)

lemma forTable_get_value:
  "preferences (tables w a) = Some prefs \<Longrightarrow>
   preferences_forTable_get a P k w = (Inr (storage_get prefs (class_name P) TableScope k), w)"
  by (simp add: preferences_forTable_get_def with_prefs_read)

lemma forColumn_set_state:
  "preferences (tables w (column_table col)) = Some prefs \<Longrightarrow>
   preferences (tables (snd (preferences_forColumn_set col P k v w)) (column_table col))
     = Some (persist (storage_set prefs (class_name P) (ColumnScope (column_key col)) k v))"
  by (simp add: preferences_forColumn_set_def with_prefs_write)

lemma forColumn_delete_state:
  "preferences (tables w (column_table col)) = Some prefs \<Longrightarrow>
   preferences (tables (snd (preferences_forColumn_delete col P k w)) (column_table col))
     = Some (persist (storage_delete prefs (class_name P) (ColumnScope (column_key col)) k))"
  by (simp add: preferences_forColumn_delete_def with_prefs_write)

lemma forColumn_get_value:
  "preferences (tables w (column_table col)) = Some prefs \<Longrightarrow>
   preferences_forColumn_get col P k w
     = (Inr (storage_get prefs (class_name P) (ColumnScope (column_key col)) k), w)"
  by (simp add: preferences_forColumn_get_def with_prefs_read)

lemma storage_get_set:
  "storage_get (persist (storage_set prefs n s k v)) n' s' k' =
     (if n' = n \<and> s' = s \<and> k' = k then v else storage_get prefs n' s' k')"
  by (simp add: storage_get_def storage_set_def persist_def)

lemma storage_get_delete:
  "storage_get (persist (storage_delete prefs n s k)) n' s' k' =
     (if n' = n \<and> s' = s \<and> k' = k then JUndefined else storage_get prefs n' s' k')"
  by (simp add: storage_get_def storage_delete_def persist_def)

lemma world_prefs_preferences:
  "preferences (tables world_prefs 0) = Some (new_TablePreferences ''ember1'' None)"
  by (simp add: world_prefs_def Table_modify_def modify_table_def world_AB_def fresh_world_def
      table_AB_def Let_def)

















section \<open>The claims\<close>







text \<open>
  C3. The claim is that a second table meta for a plugin class on a table that holds
  one is a fatal error, never a silent overwrite, and that the table meta factory
  never runs twice for one table; the last assertion of \<open>meta.forTable\<close> says so too
  ("A plugin may only be instantiated once per table"). The code checks that
  assertion before it calls the constructor, and only on a miss, so it does not
  catch a second construction. With a plugin whose table meta constructor looks up
  its own table meta, one call of \<open>meta.forTable\<close> on a fresh table returns without
  error after the constructor was called twice for the one slot, and the object the
  inner call stored was replaced. Nor is one plugin instance held to one table meta:
  the instance of a subclass of \<open>A\<close> gets one under \<open>A\<close> and another under the subclass.
\<close>

theorem second_table_meta_is_silent:
  "fst (meta_forTable 0 Reentrant world_reentrant)
     = Inr \<lparr>meta_ref = 1, meta_of_class = 40, meta_entity = ETable 0, meta_members = no_members\<rparr>
   \<and> constructed (snd (meta_forTable 0 Reentrant world_reentrant))
       = [(TABLE_META, StringKey ''ember5'', 40), (TABLE_META, StringKey ''ember5'', 40)]
   \<and> replaced (snd (meta_forTable 0 Reentrant world_reentrant))
       = [(TABLE_META, StringKey ''ember5'', 40)]
   \<and> cached (snd (meta_forTable 0 Reentrant world_reentrant)) (TABLE_META, StringKey ''ember5'', 40)
       = Some \<lparr>meta_ref = 1, meta_of_class = 40, meta_entity = ETable 0,
               meta_members = no_members\<rparr>
   \<and> fst (pluginOf 0 PluginA world_SubA) = fst (pluginOf 0 SubA world_SubA)
   \<and> fst (meta_forTable 0 PluginA world_SubA)
       = Inr \<lparr>meta_ref = 1, meta_of_class = 10, meta_entity = ETable 0, meta_members = no_members\<rparr>
   \<and> fst (meta_forTable 0 SubA (snd (meta_forTable 0 PluginA world_SubA)))
       = Inr \<lparr>meta_ref = 2, meta_of_class = 10, meta_entity = ETable 0, meta_members = no_members\<rparr>"
proof -
  have 1: "fst (meta_forTable 0 Reentrant world_reentrant)
     = Inr \<lparr>meta_ref = 1, meta_of_class = 40, meta_entity = ETable 0, meta_members = no_members\<rparr>"
    by (simp add: eval_defs reentrant_defs)
  have 2: "constructed (snd (meta_forTable 0 Reentrant world_reentrant))
       = [(TABLE_META, StringKey ''ember5'', 40), (TABLE_META, StringKey ''ember5'', 40)]"
    by (simp add: eval_defs reentrant_defs)
  have 3: "replaced (snd (meta_forTable 0 Reentrant world_reentrant))
       = [(TABLE_META, StringKey ''ember5'', 40)]"
    by (simp add: eval_defs reentrant_defs)
  have 4: "cached (snd (meta_forTable 0 Reentrant world_reentrant))
             (TABLE_META, StringKey ''ember5'', 40)
       = Some \<lparr>meta_ref = 1, meta_of_class = 40, meta_entity = ETable 0,
               meta_members = no_members\<rparr>"
    by (simp add: cached_def eval_defs reentrant_defs)
  have 5: "fst (pluginOf 0 PluginA world_SubA) = fst (pluginOf 0 SubA world_SubA)"
    by (simp add: eval_defs SubA_defs)
  have 6: "fst (meta_forTable 0 PluginA world_SubA)
       = Inr \<lparr>meta_ref = 1, meta_of_class = 10, meta_entity = ETable 0, meta_members = no_members\<rparr>"
    by (simp add: eval_defs SubA_defs)
  have 7: "fst (meta_forTable 0 SubA (snd (meta_forTable 0 PluginA world_SubA)))
       = Inr \<lparr>meta_ref = 2, meta_of_class = 10, meta_entity = ETable 0, meta_members = no_members\<rparr>"
    by (simp add: eval_defs SubA_defs)
  show ?thesis using 1 2 3 4 5 6 7 by simp
qed



text \<open>
  C5, as amended. On a table whose preferences exist, in the table scope and in a
  column scope: \<open>set(k, v)\<close> then \<open>get(k)\<close> for the same plugin class returns \<open>v\<close>;
  \<open>delete(k)\<close> then \<open>get(k)\<close> returns \<open>undefined\<close>; \<open>get\<close> changes nothing; and \<open>set\<close> and
  \<open>delete\<close> for a class \<open>P\<close> leave every \<open>get\<close> for a class \<open>Q\<close> as it was, provided the
  two classes have different names.
\<close>

theorem preferences_round_trip:
  "(preferences (tables w a) = Some prefs \<longrightarrow>
      fst (preferences_forTable_get a P k (snd (preferences_forTable_set a P k v w))) = Inr v
    \<and> fst (preferences_forTable_get a P k (snd (preferences_forTable_delete a P k w))) = Inr JUndefined
    \<and> snd (preferences_forTable_get a P k w) = w)
   \<and> (preferences (tables w a) = Some prefs \<and> class_name P \<noteq> class_name Q \<longrightarrow>
      fst (preferences_forTable_get a Q k' (snd (preferences_forTable_set a P k v w)))
        = fst (preferences_forTable_get a Q k' w)
    \<and> fst (preferences_forTable_get a Q k' (snd (preferences_forTable_delete a P k w)))
        = fst (preferences_forTable_get a Q k' w))
   \<and> (preferences (tables w (column_table col)) = Some cprefs \<longrightarrow>
      fst (preferences_forColumn_get col P k (snd (preferences_forColumn_set col P k v w))) = Inr v
    \<and> fst (preferences_forColumn_get col P k (snd (preferences_forColumn_delete col P k w))) = Inr JUndefined
    \<and> snd (preferences_forColumn_get col P k w) = w)
   \<and> (preferences (tables w (column_table col)) = Some cprefs \<and> class_name P \<noteq> class_name Q \<longrightarrow>
      fst (preferences_forColumn_get col Q k' (snd (preferences_forColumn_set col P k v w)))
        = fst (preferences_forColumn_get col Q k' w)
    \<and> fst (preferences_forColumn_get col Q k' (snd (preferences_forColumn_delete col P k w)))
        = fst (preferences_forColumn_get col Q k' w))"
proof (intro conjI impI)
  assume p: "preferences (tables w a) = Some prefs"
  show "fst (preferences_forTable_get a P k (snd (preferences_forTable_set a P k v w))) = Inr v"
    by (simp add: forTable_get_value[OF forTable_set_state[OF p]] storage_get_set)
  show "fst (preferences_forTable_get a P k (snd (preferences_forTable_delete a P k w))) = Inr JUndefined"
    by (simp add: forTable_get_value[OF forTable_delete_state[OF p]] storage_get_delete)
  show "snd (preferences_forTable_get a P k w) = w"
    by (simp add: forTable_get_value[OF p])
next
  assume "preferences (tables w a) = Some prefs \<and> class_name P \<noteq> class_name Q"
  then have p: "preferences (tables w a) = Some prefs" and n: "class_name Q \<noteq> class_name P"
    by auto
  show "fst (preferences_forTable_get a Q k' (snd (preferences_forTable_set a P k v w)))
        = fst (preferences_forTable_get a Q k' w)"
    using n
    by (simp add: forTable_get_value[OF forTable_set_state[OF p]] forTable_get_value[OF p]
          storage_get_set)
  show "fst (preferences_forTable_get a Q k' (snd (preferences_forTable_delete a P k w)))
        = fst (preferences_forTable_get a Q k' w)"
    using n
    by (simp add: forTable_get_value[OF forTable_delete_state[OF p]] forTable_get_value[OF p]
          storage_get_delete)
next
  assume p: "preferences (tables w (column_table col)) = Some cprefs"
  show "fst (preferences_forColumn_get col P k (snd (preferences_forColumn_set col P k v w))) = Inr v"
    by (simp add: forColumn_get_value[OF forColumn_set_state[OF p]] storage_get_set)
  show "fst (preferences_forColumn_get col P k (snd (preferences_forColumn_delete col P k w))) = Inr JUndefined"
    by (simp add: forColumn_get_value[OF forColumn_delete_state[OF p]] storage_get_delete)
  show "snd (preferences_forColumn_get col P k w) = w"
    by (simp add: forColumn_get_value[OF p])
next
  assume "preferences (tables w (column_table col)) = Some cprefs \<and> class_name P \<noteq> class_name Q"
  then have p: "preferences (tables w (column_table col)) = Some cprefs"
    and n: "class_name Q \<noteq> class_name P" by auto
  show "fst (preferences_forColumn_get col Q k' (snd (preferences_forColumn_set col P k v w)))
        = fst (preferences_forColumn_get col Q k' w)"
    using n
    by (simp add: forColumn_get_value[OF forColumn_set_state[OF p]] forColumn_get_value[OF p]
          storage_get_set)
  show "fst (preferences_forColumn_get col Q k' (snd (preferences_forColumn_delete col P k w)))
        = fst (preferences_forColumn_get col Q k' w)"
    using n
    by (simp add: forColumn_get_value[OF forColumn_delete_state[OF p]] forColumn_get_value[OF p]
          storage_get_delete)
qed

theorem preferences_round_trip_witness:
  "fst (preferences_forTable_get 0 PluginA ''width''
          (snd (preferences_forTable_set 0 PluginA ''width'' (JNum 3) world_prefs))) = Inr (JNum 3)
   \<and> fst (preferences_forTable_get 0 PluginA ''width''
          (snd (preferences_forTable_delete 0 PluginA ''width'' world_prefs))) = Inr JUndefined
   \<and> class_name PluginA \<noteq> class_name PluginB
   \<and> fst (preferences_forTable_get 0 PluginB ''width''
          (snd (preferences_forTable_set 0 PluginA ''width'' (JNum 3) world_prefs)))
        = fst (preferences_forTable_get 0 PluginB ''width'' world_prefs)
   \<and> fst (preferences_forColumn_get column_1 PluginA ''width''
          (snd (preferences_forColumn_set column_1 PluginA ''width'' (JNum 3) world_prefs))) = Inr (JNum 3)
   \<and> fst (preferences_forColumn_get column_1 PluginB ''width''
          (snd (preferences_forColumn_delete column_1 PluginA ''width'' world_prefs)))
        = fst (preferences_forColumn_get column_1 PluginB ''width'' world_prefs)"
proof -
  have n: "class_name PluginA \<noteq> class_name PluginB" by (simp add: PluginA_def PluginB_def)
  note T = preferences_round_trip[where w = world_prefs and a = 0 and P = PluginA and Q = PluginB
      and k = "''width''" and k' = "''width''" and v = "JNum 3" and col = column_1
      and prefs = "new_TablePreferences ''ember1'' None"
      and cprefs = "new_TablePreferences ''ember1'' None"]
  have c: "column_table column_1 = 0" by (simp add: column_1_def)
  show ?thesis using T n world_prefs_preferences c by simp
qed

text \<open>
  C5 as stated fails: two distinct classes with the same name share one scope, so a
  value written for the first is read back for the second.
\<close>

theorem preferences_isolation_counterexample:
  "class_id Plugin_one \<noteq> class_id Plugin_two
   \<and> fst (preferences_forTable_get 0 Plugin_two ''width'' world_prefs) = Inr JUndefined
   \<and> fst (preferences_forTable_get 0 Plugin_two ''width''
          (snd (preferences_forTable_set 0 Plugin_one ''width'' (JNum 3) world_prefs))) = Inr (JNum 3)
   \<and> fst (preferences_forColumn_get column_1 Plugin_two ''width''
          (snd (preferences_forColumn_set column_1 Plugin_one ''width'' (JNum 3) world_prefs))) = Inr (JNum 3)"
proof -
  have names: "class_name Plugin_one = ''Plugin''" "class_name Plugin_two = ''Plugin''"
    by (simp_all add: Plugin_one_def Plugin_two_def)
  have p: "preferences (tables world_prefs 0) = Some (new_TablePreferences ''ember1'' None)"
    by (rule world_prefs_preferences)
  have pc: "preferences (tables world_prefs (column_table column_1)) = Some (new_TablePreferences ''ember1'' None)"
    using world_prefs_preferences by (simp add: column_1_def)
  have 1: "class_id Plugin_one \<noteq> class_id Plugin_two"
    by (simp add: Plugin_one_def Plugin_two_def)
  have 2: "fst (preferences_forTable_get 0 Plugin_two ''width'' world_prefs) = Inr JUndefined"
    by (simp add: forTable_get_value[OF p] storage_get_def new_TablePreferences_def)
  have 3: "fst (preferences_forTable_get 0 Plugin_two ''width''
          (snd (preferences_forTable_set 0 Plugin_one ''width'' (JNum 3) world_prefs))) = Inr (JNum 3)"
    by (simp add: forTable_get_value[OF forTable_set_state[OF p]] storage_get_set names)
  have 4: "fst (preferences_forColumn_get column_1 Plugin_two ''width''
          (snd (preferences_forColumn_set column_1 Plugin_one ''width'' (JNum 3) world_prefs))) = Inr (JNum 3)"
    by (simp add: forColumn_get_value[OF forColumn_set_state[OF pc]] storage_get_set names)
  show ?thesis using 1 2 3 4 by blast
qed



text \<open>
  C7. Options lookup never fails on absence. For a configured table, \<open>options.forTable\<close>
  returns the empty object when no tuple of the normalized plugin configuration has
  the plugin class as its first element, and when the provider of the first such
  tuple returns nothing; otherwise it returns what that provider returns.
  \<open>options.forColumn\<close> does the same over the column's own list, where a missing list
  and a tuple without a provider also give the empty object.
\<close>

theorem options_default_to_empty:
  "(args t = Some config
      \<and> \<not> list_ex (is_class P) (normalizePluginsConfig (config_plugins config))
      \<longrightarrow> options_forTable t P = Inr Map.empty)
   \<and> (args t = Some config
      \<and> find (is_class P) (normalizePluginsConfig (config_plugins config)) = Some (c, fn)
      \<and> fn () = None
      \<longrightarrow> options_forTable t P = Inr Map.empty)
   \<and> (args t = Some config
      \<and> find (is_class P) (normalizePluginsConfig (config_plugins config)) = Some (c, fn)
      \<and> fn () = Some opts
      \<longrightarrow> options_forTable t P = Inr opts)
   \<and> (pluginOptions col = None \<longrightarrow> options_forColumn col P = Map.empty)
   \<and> (pluginOptions col = Some pos \<and> \<not> list_ex (\<lambda>option. fst option = class_id P) pos
      \<longrightarrow> options_forColumn col P = Map.empty)
   \<and> (pluginOptions col = Some pos
      \<and> find (\<lambda>option. fst option = class_id P) pos = Some (cid, None)
      \<longrightarrow> options_forColumn col P = Map.empty)
   \<and> (pluginOptions col = Some pos
      \<and> find (\<lambda>option. fst option = class_id P) pos = Some (cid, Some cfn) \<and> cfn () = None
      \<longrightarrow> options_forColumn col P = Map.empty)
   \<and> (pluginOptions col = Some pos
      \<and> find (\<lambda>option. fst option = class_id P) pos = Some (cid, Some cfn) \<and> cfn () = Some opts
      \<longrightarrow> options_forColumn col P = opts)"
proof -
  have none: "\<not> list_ex Q xs \<Longrightarrow> find Q xs = None" for Q :: "'x \<Rightarrow> bool" and xs
    by (simp add: find_None_iff list_ex_iff)
  show ?thesis
    by (auto simp: options_forTable_def options_forColumn_def Let_def dest!: none)
qed

theorem options_default_to_empty_witness:
  "options_forTable table_with_options StickyColumns = Inr Map.empty
   \<and> options_forTable table_with_options PluginB = Inr Map.empty
   \<and> options_forTable table_with_options PluginA = Inr [''x'' \<mapsto> JNum 1]
   \<and> options_forColumn column_a StickyColumns = Map.empty
   \<and> options_forColumn column_b PluginA = Map.empty
   \<and> options_forColumn column_b StickyColumns = [''sticky'' \<mapsto> JStr ''left'']"
proof -
  let ?cfg = "\<lparr>config_plugins =
                     Some [WithOptions (PluginClass PluginA) (\<lambda>_. Some [''x'' \<mapsto> JNum 1]),
                           WithOptions (PluginClass PluginB) (\<lambda>_. None)],
                   config_preferences = None\<rparr>"
  have a: "args table_with_options = Some ?cfg" by (simp add: table_with_options_def)
  have n: "\<not> list_ex (is_class StickyColumns) (normalizePluginsConfig (config_plugins ?cfg))"
    by (simp add: normalizePluginsConfig_def is_class_def StickyColumns_def PluginA_def PluginB_def)
  have fb: "find (is_class PluginB) (normalizePluginsConfig (config_plugins ?cfg))
              = Some (PluginClass PluginB, \<lambda>_. None)"
    by (simp add: normalizePluginsConfig_def is_class_def PluginA_def PluginB_def)
  have fa: "find (is_class PluginA) (normalizePluginsConfig (config_plugins ?cfg))
              = Some (PluginClass PluginA, \<lambda>_. Some [''x'' \<mapsto> JNum 1])"
    by (simp add: normalizePluginsConfig_def is_class_def PluginA_def PluginB_def)
  have ca: "pluginOptions column_a = None" by (simp add: column_a_def)
  let ?pos = "[(class_id StickyColumns, Some (\<lambda>_::unit. Some [''sticky'' \<mapsto> JStr ''left'']))]"
  have cb: "pluginOptions column_b = Some ?pos" by (simp add: column_b_def sticky_column_def)
  have cbn: "\<not> list_ex (\<lambda>option. fst option = class_id PluginA) ?pos"
    by (simp add: StickyColumns_def PluginA_def)
  have cbs: "find (\<lambda>option. fst option = class_id StickyColumns) ?pos
               = Some (class_id StickyColumns, Some (\<lambda>_. Some [''sticky'' \<mapsto> JStr ''left'']))"
    by simp
  have 1: "options_forTable table_with_options StickyColumns = Inr Map.empty"
    using options_default_to_empty[where t = table_with_options and config = ?cfg
          and P = StickyColumns] a n by blast
  have 2: "options_forTable table_with_options PluginB = Inr Map.empty"
    using options_default_to_empty[where t = table_with_options and config = ?cfg and P = PluginB
          and c = "PluginClass PluginB" and fn = "\<lambda>_. None"] a fb by blast
  have 3: "options_forTable table_with_options PluginA = Inr [''x'' \<mapsto> JNum 1]"
    using options_default_to_empty[where t = table_with_options and config = ?cfg and P = PluginA
          and c = "PluginClass PluginA" and fn = "\<lambda>_. Some [''x'' \<mapsto> JNum 1]"
          and opts = "[''x'' \<mapsto> JNum 1]"] a fa by blast
  have 4: "options_forColumn column_a StickyColumns = Map.empty"
    using options_default_to_empty[where col = column_a and P = StickyColumns] ca by blast
  have 5: "options_forColumn column_b PluginA = Map.empty"
    using options_default_to_empty[where col = column_b and P = PluginA and pos = ?pos] cb cbn
    by blast
  have 6: "options_forColumn column_b StickyColumns = [''sticky'' \<mapsto> JStr ''left'']"
    using options_default_to_empty[where P = StickyColumns and col = column_b and pos = ?pos
          and opts = "[''sticky'' \<mapsto> JStr ''left'']"
          and cid = "class_id StickyColumns"
          and cfn = "\<lambda>_. Some [''sticky'' \<mapsto> JStr ''left'']"] cb cbs by blast
  show ?thesis using 1 2 3 4 5 6 by blast
qed




text \<open>
  C10. The sticky option is declared \<open>boolean | string\<close>, yet the getter \<open>position\<close>
  accepts \<open>'left'\<close>, \<open>'right'\<close>, \<open>false\<close> and \<open>undefined\<close> only. For \<open>false\<close> and \<open>undefined\<close>
  the position is \<open>'none'\<close> and \<open>isSticky\<close> is false. For every other value, \<open>true\<close> and
  any other string included, \<open>position\<close> fails its assertion, and so do \<open>isSticky\<close>,
  \<open>offset\<close> and \<open>style\<close>, which read it first.
\<close>

theorem sticky_accepts_four_values:
  "(sticky_option col = JStr ''left''
      \<longrightarrow> ColumnMeta_position col = Inr Left \<and> ColumnMeta_isSticky col = Inr True)
   \<and> (sticky_option col = JStr ''right''
      \<longrightarrow> ColumnMeta_position col = Inr Right \<and> ColumnMeta_isSticky col = Inr True)
   \<and> (sticky_option col = JBool False \<or> sticky_option col = JUndefined
      \<longrightarrow> ColumnMeta_position col = Inr NoPosition \<and> ColumnMeta_isSticky col = Inr False)
   \<and> (sticky_option col \<notin> {JStr ''left'', JStr ''right'', JBool False, JUndefined}
      \<longrightarrow> ColumnMeta_position col = Inl (InvalidSticky (sticky_option col))
        \<and> ColumnMeta_isSticky col = Inl (InvalidSticky (sticky_option col))
        \<and> ColumnMeta_offset col w = (Inl (InvalidSticky (sticky_option col)), w)
        \<and> ColumnMeta_style col w = (Inl (InvalidSticky (sticky_option col)), w))"
  by (auto simp: ColumnMeta_position_def ColumnMeta_isSticky_def ColumnMeta_offset_def
        ColumnMeta_style_def throwE_def Let_def)

theorem sticky_accepts_four_values_witness:
  "ColumnMeta_position (sticky_column 104 ''d'' (JBool True)) = Inl (InvalidSticky (JBool True))
   \<and> ColumnMeta_isSticky (sticky_column 105 ''e'' (JStr ''center'')) = Inl (InvalidSticky (JStr ''center''))
   \<and> ColumnMeta_style (sticky_column 104 ''d'' (JBool True)) world_AB = (Inl (InvalidSticky (JBool True)), world_AB)
   \<and> ColumnMeta_position (sticky_column 106 ''f'' (JBool False)) = Inr NoPosition
   \<and> ColumnMeta_isSticky column_a = Inr False
   \<and> ColumnMeta_position column_b = Inr Left
   \<and> ColumnMeta_position column_c = Inr Right"
proof -
  have so: "sticky_option (sticky_column r key v) = v" for r key v
    by (simp add: sticky_option_def sticky_column_def options_forColumn_def)
  have sa: "sticky_option column_a = JUndefined"
    by (simp add: sticky_option_def column_a_def options_forColumn_def)
  have 1: "ColumnMeta_position (sticky_column 104 ''d'' (JBool True)) = Inl (InvalidSticky (JBool True))"
      "ColumnMeta_style (sticky_column 104 ''d'' (JBool True)) world_AB = (Inl (InvalidSticky (JBool True)), world_AB)"
    using sticky_accepts_four_values[of "sticky_column 104 ''d'' (JBool True)" world_AB]
    by (simp_all add: so)
  have 2: "ColumnMeta_isSticky (sticky_column 105 ''e'' (JStr ''center'')) = Inl (InvalidSticky (JStr ''center''))"
    using sticky_accepts_four_values[of "sticky_column 105 ''e'' (JStr ''center'')"]
    by (simp add: so)
  have 3: "ColumnMeta_position (sticky_column 106 ''f'' (JBool False)) = Inr NoPosition"
    using sticky_accepts_four_values[of "sticky_column 106 ''f'' (JBool False)"]
    by (simp add: so)
  have 4: "ColumnMeta_isSticky column_a = Inr False"
    using sticky_accepts_four_values[of column_a] by (simp add: sa)
  have 5: "ColumnMeta_position column_b = Inr Left"
    using sticky_accepts_four_values[of column_b] by (simp add: so column_b_def)
  have 6: "ColumnMeta_position column_c = Inr Right"
    using sticky_accepts_four_values[of column_c] by (simp add: so column_c_def)
  show ?thesis using 1 2 3 4 5 6 by blast
qed

end
